theory Spec2Isabelle
  imports Main
begin

section \<open>The VoiceClient component: connection state and form state\<close>

text \<open>
  The component of \<^verbatim>\<open>VoiceClient.tsx\<close> (the version headed "FIXED VERSION") holds
  three pieces of React state and one ref:
  \<^verbatim>\<open>
  type ConnectionState = "idle" | "connecting" | "connected" | "error";
  interface FormField { name: string; label: string; type: string; }

  const client = useRef<PipecatClient | null>(null);
  const [connectionState, setConnectionState] = useState<ConnectionState>("idle");
  const [formFields, setFormFields] = useState<FormField[] | null>(null);
  const [formValues, setFormValues] = useState<Record<string, string>>({});
  \<close>
  Every state setter of the component is called either with a constant or with a
  functional updater, and React applies queued updates in the order of the calls, so a
  setter is modelled as an assignment to the corresponding field of the state.
\<close>

subsection \<open>Data\<close>

datatype ConnectionState = idle | connecting | connected | error

record FormField =
  name :: string
  label :: string
  type :: string

text \<open>
  The handle of the external client library. Nothing of it is visible to the component
  but its identity and the two methods the component calls on it.
\<close>

datatype PipecatClient = PipecatClient

datatype client_call = Connect | Disconnect

text \<open>
  A server message is destructured as \<^verbatim>\<open>const { type, payload } = message\<close>. The
  handler reads \<^verbatim>\<open>payload.fields\<close>, \<^verbatim>\<open>payload.field_name\<close> and
  \<^verbatim>\<open>payload.field_value\<close> without checking them and passes them on to the state as
  they are; a payload object is taken to carry the three properties at the types the
  state declares. A \<^verbatim>\<open>payload\<close> that is \<^verbatim>\<open>undefined\<close> or \<^verbatim>\<open>null\<close>
  is \<open>None\<close>: reading a property of it throws. The \<^verbatim>\<open>switch\<close> compares
  \<^verbatim>\<open>type\<close> strictly with three string literals, so a type that is not a string
  falls to the default case as an unknown string does.
\<close>

datatype payload =
  Payload (fields: "FormField list") (field_name: string) (field_value: string)

datatype message = Message (type: string) (payload: "payload option")

datatype js_error = TypeError

text \<open>What the handlers write to the console, one constructor per call site.\<close>

datatype log_line =
    LogReceived message
  | LogOpening "FormField list"
  | LogUpdating string string
  | LogSubmitted
  | LogUnknown string "payload option"
  | LogConnectionFailed

record state =
  client_current :: "PipecatClient option"
  connectionState :: ConnectionState
  formFields :: "FormField list option"
  formValues :: "string \<rightharpoonup> string"
  calls :: "client_call list"
  console :: "log_line list"

text \<open>
  \<open>calls\<close> records the method calls the component has issued on the client handle and
  \<open>console\<close> the lines it has logged, both oldest first. The state before the first
  effect has run:
\<close>

definition initial :: state where
  "initial = \<lparr>client_current = None, connectionState = idle, formFields = None,
     formValues = Map.empty, calls = [], console = []\<rparr>"

definition log :: "log_line \<Rightarrow> state \<Rightarrow> state" where
  "log l s = s\<lparr>console := console s @ [l]\<rparr>"

subsection \<open>The callbacks given to the client\<close>

text \<open>
  \<^verbatim>\<open>
  onConnected: () => setConnectionState("connected"),
  onDisconnected: () => {
      setConnectionState("idle");
      setFormFields(null);
      setFormValues({});
  },
  onError: () => setConnectionState("error"),
  \<close>
\<close>

definition onConnected :: "state \<Rightarrow> state" where
  "onConnected s = s\<lparr>connectionState := connected\<rparr>"

definition onDisconnected :: "state \<Rightarrow> state" where
  "onDisconnected s =
     s\<lparr>connectionState := idle, formFields := None, formValues := Map.empty\<rparr>"

definition onError :: "state \<Rightarrow> state" where
  "onError s = s\<lparr>connectionState := error\<rparr>"

text \<open>
  \<^verbatim>\<open>
  onServerMessage: (message: any) => {
      console.log("Received server message:", message);
      const { type, payload } = message;
      switch (type) {
          case "open_form":
              console.log("Opening form with fields:", payload.fields);
              setFormFields(payload.fields);
              setFormValues({});
              break;
          case "update_field":
              console.log("Updating field:", payload.field_name, "with value:", payload.field_value);
              setFormValues(prevValues => ({
                  ...prevValues,
                  [payload.field_name]: payload.field_value,
              }));
              break;
          case "submit_form":
              console.log("Form submitted successfully!", formValues);
              setFormFields(null);
              setFormValues({});
              break;
          default:
              console.log("Unknown message type:", type, payload);
      }
  },
  \<close>
  In the first two cases the first statement reads a property of \<^verbatim>\<open>payload\<close>, so a
  missing payload throws before any setter is called; the line logged on entry is
  written all the same. The third case and the default never read a property of it.
\<close>

definition onServerMessage :: "state \<Rightarrow> message \<Rightarrow> js_error + state" where
  "onServerMessage s m =
     (let s1 = log (LogReceived m) s in
      if message.type m = ''open_form'' then
        (case payload m of
           None \<Rightarrow> Inl TypeError
         | Some p \<Rightarrow>
             Inr ((log (LogOpening (payload.fields p)) s1)
                    \<lparr>formFields := Some (payload.fields p), formValues := Map.empty\<rparr>))
      else if message.type m = ''update_field'' then
        (case payload m of
           None \<Rightarrow> Inl TypeError
         | Some p \<Rightarrow>
             Inr ((log (LogUpdating (field_name p) (field_value p)) s1)
                    \<lparr>formValues := (formValues s1)(field_name p \<mapsto> field_value p)\<rparr>))
      else if message.type m = ''submit_form'' then
        Inr ((log LogSubmitted s1)\<lparr>formFields := None, formValues := Map.empty\<rparr>)
      else
        Inr (log (LogUnknown (message.type m) (payload m)) s1))"

text \<open>
  The client library invokes the callbacks. An exception thrown by a callback goes back
  to the library; of the component it leaves behind only what was done before the throw,
  which for \<open>onServerMessage\<close> is the line logged on entry.
\<close>

datatype callback = OnConnected | OnDisconnected | OnError | OnServerMessage message

fun fire :: "state \<Rightarrow> callback \<Rightarrow> state" where
  "fire s OnConnected = onConnected s"
| "fire s OnDisconnected = onDisconnected s"
| "fire s OnError = onError s"
| "fire s (OnServerMessage m) =
     (case onServerMessage s m of
        Inl e \<Rightarrow> log (LogReceived m) s
      | Inr s' \<Rightarrow> s')"

subsection \<open>Mounting, connecting, disconnecting\<close>

text \<open>
  The effect creates the client on mount and its cleanup calls
  \<^verbatim>\<open>client.current?.disconnect()\<close>, as does \<^verbatim>\<open>handleDisconnect\<close>. Neither sets
  any state: the state changes when the library answers with \<^verbatim>\<open>onDisconnected\<close>.
\<close>

definition mount :: "state \<Rightarrow> state" where
  "mount s = s\<lparr>client_current := Some PipecatClient\<rparr>"

definition handleDisconnect :: "state \<Rightarrow> state" where
  "handleDisconnect s =
     (case client_current s of
        None \<Rightarrow> s
      | Some c \<Rightarrow> s\<lparr>calls := calls s @ [Disconnect]\<rparr>)"

definition unmount :: "state \<Rightarrow> state" where
  "unmount s = handleDisconnect s"

text \<open>
  \<^verbatim>\<open>
  const handleConnect = async () => {
      if (!client.current) return;
      setConnectionState("connecting");
      try {
          await client.current.connect({ ws_url: pipecatUrl });
      } catch (error) {
          console.error("Connection failed:", error);
          setConnectionState("error");
      }
  };
  \<close>
  An asynchronous function runs synchronously up to its first \<^verbatim>\<open>await\<close>
  (\<open>handleConnect_begin\<close>, which says whether the call is now suspended) and is resumed
  when the awaited promise settles (\<open>handleConnect_resume\<close>). A synchronous throw of
  \<^verbatim>\<open>connect\<close> is caught by the same \<^verbatim>\<open>try\<close> and is a rejection with nothing
  in between.
\<close>

datatype settled = Resolved | Rejected

definition handleConnect_begin :: "state \<Rightarrow> bool \<times> state" where
  "handleConnect_begin s =
     (case client_current s of
        None \<Rightarrow> (False, s)
      | Some c \<Rightarrow> (True, s\<lparr>connectionState := connecting, calls := calls s @ [Connect]\<rparr>))"

definition handleConnect_resume :: "state \<Rightarrow> settled \<Rightarrow> state" where
  "handleConnect_resume s r =
     (case r of
        Resolved \<Rightarrow> s
      | Rejected \<Rightarrow> (log LogConnectionFailed s)\<lparr>connectionState := error\<rparr>)"

text \<open>
  One whole invocation: \<open>during\<close> are the callbacks the library fires while the call is
  suspended, \<open>r\<close> is how the promise settles. The function returns a promise that never
  rejects: its only throwing statement is inside the \<^verbatim>\<open>try\<close>. The result is
  \<open>Inr\<close> of the state at its completion.
\<close>

definition handleConnect :: "state \<Rightarrow> callback list \<Rightarrow> settled \<Rightarrow> js_error + state" where
  "handleConnect s during r =
     (case handleConnect_begin s of
        (False, s') \<Rightarrow> Inr s'
      | (True, s') \<Rightarrow> Inr (handleConnect_resume (foldl fire s' during) r))"

text \<open>
  The one button of the component:
  \<^verbatim>\<open>
  const isConnected = connectionState === "connected";
  const isConnecting = connectionState === "connecting";
  <button onClick={isConnected ? handleDisconnect : handleConnect} disabled={isConnecting}>
  \<close>
  A disabled button delivers no click.
\<close>

definition isConnected :: "state \<Rightarrow> bool" where
  "isConnected s = (connectionState s = connected)"

definition isConnecting :: "state \<Rightarrow> bool" where
  "isConnecting s = (connectionState s = connecting)"

definition click :: "state \<Rightarrow> state" where
  "click s =
     (if isConnecting s then s
      else if isConnected s then handleDisconnect s
      else snd (handleConnect_begin s))"

subsection \<open>Runs of the component\<close>

text \<open>
  Everything that can happen to the mounted component, one event at a time: the effect
  and its cleanup, a call of either handler, a click on the button, the settling of a
  pending \<^verbatim>\<open>connect\<close> promise, and a callback fired by the library.
\<close>

datatype event =
    Mount
  | Unmount
  | CallConnect
  | CallDisconnect
  | Click
  | Settle settled
  | Notify callback

fun step :: "state \<Rightarrow> event \<Rightarrow> state" where
  "step s Mount = mount s"
| "step s Unmount = unmount s"
| "step s CallConnect = snd (handleConnect_begin s)"
| "step s CallDisconnect = handleDisconnect s"
| "step s Click = click s"
| "step s (Settle r) = handleConnect_resume s r"
| "step s (Notify cb) = fire s cb"

definition run :: "state \<Rightarrow> event list \<Rightarrow> state" where
  "run s es = foldl step s es"



definition connects_issued :: "state \<Rightarrow> nat" where
  "connects_issued s = count_list (calls s) Connect"


subsection \<open>The earlier draft of the component\<close>

text \<open>
  The repository also holds the draft that the version above replaces. Its callbacks set
  the same state; its \<^verbatim>\<open>handleConnect\<close> differs in the handler of a rejection, which
  only logs:
  \<^verbatim>\<open>
  } catch (error) {
      console.error("Connection failed:", error);
  }
  \<close>
\<close>

definition handleConnect_resume_draft :: "state \<Rightarrow> settled \<Rightarrow> state" where
  "handleConnect_resume_draft s r =
     (case r of
        Resolved \<Rightarrow> s
      | Rejected \<Rightarrow> log LogConnectionFailed s)"

definition handleConnect_draft :: "state \<Rightarrow> callback list \<Rightarrow> settled \<Rightarrow> js_error + state" where
  "handleConnect_draft s during r =
     (case handleConnect_begin s of
        (False, s') \<Rightarrow> Inr s'
      | (True, s') \<Rightarrow> Inr (handleConnect_resume_draft (foldl fire s' during) r))"

subsection \<open>The state machine of the specification\<close>



subsection \<open>A session with an active form\<close>

text \<open>
  The scenario of the specification: the component is mounted, the button is clicked,
  the transport connects, the server opens a form with one field and fills it.
\<close>

definition email_field :: FormField where
  "email_field = \<lparr>name = ''email'', label = ''Email'', type = ''email''\<rparr>"

definition open_email_form :: message where
  "open_email_form = Message ''open_form'' (Some (Payload [email_field] [] []))"

definition fill_email :: message where
  "fill_email = Message ''update_field'' (Some (Payload [] ''email'' ''a@b.com''))"

definition active_session :: state where
  "active_session =
     run initial [Mount, Click, Notify OnConnected,
       Notify (OnServerMessage open_email_form), Notify (OnServerMessage fill_email)]"

section \<open>Properties\<close>

subsection \<open>What each handler does\<close>

lemma onServerMessage_open_form:
  "onServerMessage s (Message ''open_form'' (Some p)) =
     Inr (s\<lparr>formFields := Some (payload.fields p), formValues := Map.empty,
            console := console s @
              [LogReceived (Message ''open_form'' (Some p)), LogOpening (payload.fields p)]\<rparr>)"
  by (simp add: onServerMessage_def log_def)

lemma onServerMessage_update_field:
  "onServerMessage s (Message ''update_field'' (Some p)) =
     Inr (s\<lparr>formValues := (formValues s)(field_name p \<mapsto> field_value p),
            console := console s @
              [LogReceived (Message ''update_field'' (Some p)),
               LogUpdating (field_name p) (field_value p)]\<rparr>)"
  by (simp add: onServerMessage_def log_def)

lemma onServerMessage_submit_form:
  "onServerMessage s (Message ''submit_form'' pl) =
     Inr (s\<lparr>formFields := None, formValues := Map.empty,
            console := console s @ [LogReceived (Message ''submit_form'' pl), LogSubmitted]\<rparr>)"
  by (simp add: onServerMessage_def log_def)

lemma onServerMessage_unknown:
  assumes "message.type m \<noteq> ''open_form''" and "message.type m \<noteq> ''update_field''"
    and "message.type m \<noteq> ''submit_form''"
  shows "onServerMessage s m =
     Inr (s\<lparr>console := console s @ [LogReceived m, LogUnknown (message.type m) (payload m)]\<rparr>)"
  using assms by (simp add: onServerMessage_def log_def)

lemma onServerMessage_no_payload:
  assumes "t = ''open_form'' \<or> t = ''update_field''"
  shows "onServerMessage s (Message t None) = Inl TypeError"
  using assms by (auto simp add: onServerMessage_def)

text \<open>A server message changes nothing but the form and the console.\<close>

lemma onServerMessage_frame:
  assumes "onServerMessage s m = Inr s'"
  shows "connectionState s' = connectionState s \<and> client_current s' = client_current s \<and>
         calls s' = calls s"
  using assms
  by (auto simp add: onServerMessage_def log_def Let_def split: if_splits option.splits)

lemma fire_message_frame:
  "connectionState (fire s (OnServerMessage m)) = connectionState s \<and>
   client_current (fire s (OnServerMessage m)) = client_current s \<and>
   calls (fire s (OnServerMessage m)) = calls s"
proof (cases "onServerMessage s m")
  case (Inl e)
  then show ?thesis by (simp add: log_def)
next
  case (Inr s')
  with onServerMessage_frame [OF Inr] show ?thesis by simp
qed






lemma handleConnect_begin_null:
  assumes "client_current s = None"
  shows "handleConnect_begin s = (False, s)"
  using assms by (simp add: handleConnect_begin_def)

lemma handleConnect_total: "\<exists>s'. handleConnect s during r = Inr s'"
  by (simp add: handleConnect_def split: prod.splits bool.splits)

subsection \<open>Steps that are not connection attempts\<close>





subsection \<open>The form reducer\<close>

text \<open>
  Claim C2. The handler of server messages implements the transition table of the form
  reducer: from every prior state, \<^verbatim>\<open>open_form\<close> sets the form definition to the
  fields of the payload and the field values to the empty mapping; \<^verbatim>\<open>update_field\<close>
  sets the key \<^verbatim>\<open>field_name\<close> to \<^verbatim>\<open>field_value\<close> in the field values (inserting
  or overwriting) and leaves the form definition as it was; \<^verbatim>\<open>submit_form\<close> sets the
  form definition to absent and the field values to the empty mapping. None of the three
  throws.
\<close>

theorem form_reducer_table:
  "(\<exists>s'. onServerMessage s (Message ''open_form'' (Some p)) = Inr s' \<and>
          formFields s' = Some (payload.fields p) \<and> formValues s' = Map.empty) \<and>
   (\<exists>s'. onServerMessage s (Message ''update_field'' (Some p)) = Inr s' \<and>
          formValues s' = (formValues s)(field_name p \<mapsto> field_value p) \<and>
          formFields s' = formFields s) \<and>
   (\<exists>s'. onServerMessage s (Message ''submit_form'' pl) = Inr s' \<and>
          formFields s' = None \<and> formValues s' = Map.empty)"
  by (simp add: onServerMessage_open_form onServerMessage_update_field
      onServerMessage_submit_form)

theorem form_reducer_table_witness:
  "(\<exists>s'. onServerMessage active_session
            (Message ''open_form'' (Some (Payload [email_field] ''email'' ''c@d.org''))) = Inr s' \<and>
          formFields s' = Some [email_field] \<and> formValues s' = Map.empty) \<and>
   (\<exists>s'. onServerMessage active_session
            (Message ''update_field'' (Some (Payload [email_field] ''email'' ''c@d.org''))) = Inr s' \<and>
          formValues s' ''email'' = Some ''c@d.org'' \<and>
          formFields s' = formFields active_session) \<and>
   (\<exists>s'. onServerMessage active_session (Message ''submit_form'' None) = Inr s' \<and>
          formFields s' = None \<and> formValues s' = Map.empty)"
  using form_reducer_table [of active_session "Payload [email_field] ''email'' ''c@d.org''" None]
  by auto

text \<open>
  Claim C7. \<^verbatim>\<open>update_field\<close> is idempotent: delivering the same message twice in
  succession leaves the same field values as delivering it once.
\<close>

theorem update_field_idempotent:
  "formValues (fire (fire s (OnServerMessage (Message ''update_field'' pl)))
                 (OnServerMessage (Message ''update_field'' pl))) =
   formValues (fire s (OnServerMessage (Message ''update_field'' pl)))"
proof (cases pl)
  case None
  then show ?thesis by (simp add: onServerMessage_no_payload log_def)
next
  case (Some p)
  then show ?thesis by (simp add: onServerMessage_update_field)
qed

theorem update_field_idempotent_witness:
  "formValues (fire (fire initial (OnServerMessage fill_email)) (OnServerMessage fill_email)) =
   formValues (fire initial (OnServerMessage fill_email)) \<and>
   formValues (fire initial (OnServerMessage fill_email)) ''email'' = Some ''a@b.com''"
  using update_field_idempotent [of initial "Some (Payload [] ''email'' ''a@b.com'')"]
  by (simp add: fill_email_def onServerMessage_update_field)

text \<open>
  Claim C8. An \<^verbatim>\<open>update_field\<close> message is accepted for every field name, whatever
  the current form definition is (a form without that field, or no form at all): the
  handler does not throw, the entry is stored in the field values, and the form
  definition, the connection state, the client handle and the calls issued on it are
  left as they were.
\<close>

theorem update_field_unchecked:
  "\<exists>s'. onServerMessage s (Message ''update_field'' (Some p)) = Inr s' \<and>
        formValues s' (field_name p) = Some (field_value p) \<and>
        formFields s' = formFields s \<and>
        connectionState s' = connectionState s \<and>
        client_current s' = client_current s \<and>
        calls s' = calls s"
  by (simp add: onServerMessage_update_field)

theorem update_field_unchecked_witness:
  "formFields initial = None \<and>
   (\<exists>s'. onServerMessage initial (Message ''update_field'' (Some (Payload [] ''phone'' ''555''))) = Inr s' \<and>
        formValues s' ''phone'' = Some ''555'' \<and>
        formFields s' = None \<and>
        connectionState s' = idle)"
  using update_field_unchecked [of initial "Payload [] ''phone'' ''555''"]
  by (auto simp add: initial_def)

text \<open>
  Claim C9. No server message touches the connection state, whether it is one of the
  three form messages, an unknown one, or one whose handling throws; and an
  \<^verbatim>\<open>update_field\<close> message leaves every key of the field values other than its own
  \<^verbatim>\<open>field_name\<close> at its previous value.
\<close>

theorem server_message_frame:
  "connectionState (fire s (OnServerMessage m)) = connectionState s \<and>
   (\<forall>k. k \<noteq> field_name p \<longrightarrow>
      formValues (fire s (OnServerMessage (Message ''update_field'' (Some p)))) k =
      formValues s k)"
  by (simp add: fire_message_frame onServerMessage_update_field del: fire.simps(4))
       (simp add: onServerMessage_update_field)

theorem server_message_frame_witness:
  "connectionState (fire active_session (OnServerMessage (Message ''ping'' None))) = connected \<and>
   formValues (fire active_session
      (OnServerMessage (Message ''update_field'' (Some (Payload [] ''age'' ''41''))))) ''email'' =
   Some ''a@b.com''"
proof -
  have cs: "connectionState active_session = connected"
    by (simp add: active_session_def run_def initial_def mount_def click_def isConnecting_def
        isConnected_def handleConnect_begin_def onConnected_def open_email_form_def
        fill_email_def onServerMessage_open_form onServerMessage_update_field)
  have fv: "formValues active_session ''email'' = Some ''a@b.com''"
    by (simp add: active_session_def run_def initial_def mount_def click_def isConnecting_def
        isConnected_def handleConnect_begin_def onConnected_def open_email_form_def
        fill_email_def onServerMessage_open_form onServerMessage_update_field)
  have ne: "''email'' \<noteq> field_name (Payload [] ''age'' ''41'')" by simp
  from server_message_frame [of active_session "Message ''ping'' None" "Payload [] ''age'' ''41''"]
    cs fv ne show ?thesis by (simp del: fire.simps)
qed

text \<open>
  Claim C6. A server message whose type is none of \<^verbatim>\<open>open_form\<close>,
  \<^verbatim>\<open>update_field\<close>, \<^verbatim>\<open>submit_form\<close> is logged and discarded: the handler does
  not throw, it writes the message and the line for an unknown type to the console, and
  connection state, form definition, field values, client handle and issued calls are
  left unchanged.
\<close>

theorem unknown_type_discarded:
  assumes "message.type m \<notin> {''open_form'', ''update_field'', ''submit_form''}"
  shows "\<exists>s'. onServerMessage s m = Inr s' \<and>
           connectionState s' = connectionState s \<and>
           formFields s' = formFields s \<and>
           formValues s' = formValues s \<and>
           client_current s' = client_current s \<and>
           calls s' = calls s \<and>
           console s' = console s @ [LogReceived m, LogUnknown (message.type m) (payload m)]"
  using assms by (simp add: onServerMessage_unknown)

theorem unknown_type_discarded_witness:
  "\<exists>s'. onServerMessage active_session (Message ''ping'' None) = Inr s' \<and>
        connectionState s' = connectionState active_session \<and>
        formFields s' = formFields active_session \<and>
        formValues s' = formValues active_session \<and>
        console s' = console active_session @
          [LogReceived (Message ''ping'' None), LogUnknown ''ping'' None]"
proof -
  have "message.type (Message ''ping'' None) \<notin> {''open_form'', ''update_field'', ''submit_form''}"
    by simp
  from unknown_type_discarded [OF this, of active_session] show ?thesis by auto
qed

subsection \<open>Connecting\<close>

lemma active_session_eq:
  "active_session =
     \<lparr>client_current = Some PipecatClient, connectionState = connected,
      formFields = Some [email_field], formValues = [''email'' \<mapsto> ''a@b.com''],
      calls = [Connect],
      console = [LogReceived open_email_form, LogOpening [email_field],
                 LogReceived fill_email, LogUpdating ''email'' ''a@b.com'']\<rparr>"
  by (simp add: active_session_def run_def initial_def mount_def click_def isConnecting_def
      isConnected_def handleConnect_begin_def onConnected_def open_email_form_def
      fill_email_def onServerMessage_open_form onServerMessage_update_field)

text \<open>
  Claim C10. When \<^verbatim>\<open>handleConnect\<close> is invoked before the client handle exists
  (\<^verbatim>\<open>client.current\<close> is null), it returns at once and has no effect: the call is
  not suspended, the state is the one it was invoked in, so the connection state is not
  set to \<^verbatim>\<open>connecting\<close>, and nothing that happens to the transport belongs to it.
\<close>

theorem handleConnect_null_client:
  assumes "client_current s = None"
  shows "handleConnect s during r = Inr s \<and> handleConnect_begin s = (False, s) \<and>
         step s CallConnect = s"
  using assms by (simp add: handleConnect_def handleConnect_begin_null)

theorem handleConnect_null_client_witness:
  "client_current initial = None \<and>
   handleConnect initial [OnConnected] Rejected = Inr initial \<and>
   connectionState (step initial CallConnect) = idle"
proof -
  have n: "client_current initial = None" by (simp add: initial_def)
  have i: "connectionState initial = idle" by (simp add: initial_def)
  from handleConnect_null_client [OF n, of "[OnConnected]" Rejected] n i
  show ?thesis by simp
qed



text \<open>
  The draft behaves otherwise: with no callback in between, a rejected attempt leaves it
  in \<^verbatim>\<open>connecting\<close>.
\<close>

lemma handleConnect_draft_rejected:
  assumes "client_current s \<noteq> None"
  shows "\<exists>s'. handleConnect_draft s [] Rejected = Inr s' \<and> connectionState s' = connecting"
  using assms
  by (auto simp add: handleConnect_draft_def handleConnect_begin_def
      handleConnect_resume_draft_def log_def)

text \<open>
  Claim C4. An invocation of \<^verbatim>\<open>handleConnect\<close> while the connection state is
  \<^verbatim>\<open>connecting\<close> or \<^verbatim>\<open>connected\<close> never throws, whatever the transport does
  with it. Through the button it cannot happen: while \<^verbatim>\<open>connecting\<close> the button is
  disabled and a click changes nothing; while \<^verbatim>\<open>connected\<close> the button calls
  \<^verbatim>\<open>handleDisconnect\<close>, which leaves the connection state and issues no
  \<^verbatim>\<open>connect\<close>. Invoked directly, the call supersedes: it does exactly what it does
  from \<^verbatim>\<open>idle\<close>, and the state it completes in is one of the four.
\<close>

theorem reentrant_connect:
  assumes "connectionState s = connecting \<or> connectionState s = connected"
  shows "(\<exists>s'. handleConnect s during r = Inr s' \<and>
               connectionState s' \<in> {idle, connecting, connected, error}) \<and>
         (client_current s = None \<longrightarrow> handleConnect s during r = Inr s) \<and>
         (client_current s \<noteq> None \<longrightarrow>
            handleConnect s during r = handleConnect (s\<lparr>connectionState := idle\<rparr>) during r \<and>
            handleConnect_begin s =
              (True, s\<lparr>connectionState := connecting, calls := calls s @ [Connect]\<rparr>)) \<and>
         (connectionState s = connecting \<longrightarrow> click s = s) \<and>
         (connectionState s = connected \<longrightarrow>
            click s = handleDisconnect s \<and> connectionState (click s) = connected \<and>
            connects_issued (click s) = connects_issued s)"
proof -
  have a: "\<exists>s'. handleConnect s during r = Inr s' \<and>
               connectionState s' \<in> {idle, connecting, connected, error}"
  proof -
    from handleConnect_total obtain s' where "handleConnect s during r = Inr s'" by blast
    moreover have "connectionState s' \<in> {idle, connecting, connected, error}"
      by (cases "connectionState s'") simp_all
    ultimately show ?thesis by blast
  qed
  have b0: "client_current s = None \<longrightarrow> handleConnect s during r = Inr s"
    by (simp add: handleConnect_def handleConnect_begin_def)
  have b: "client_current s \<noteq> None \<longrightarrow>
            handleConnect s during r = handleConnect (s\<lparr>connectionState := idle\<rparr>) during r \<and>
            handleConnect_begin s =
              (True, s\<lparr>connectionState := connecting, calls := calls s @ [Connect]\<rparr>)"
    by (auto simp add: handleConnect_def handleConnect_begin_def)
  have c: "connectionState s = connecting \<longrightarrow> click s = s"
    by (simp add: click_def isConnecting_def)
  have d: "connectionState s = connected \<longrightarrow>
            click s = handleDisconnect s \<and> connectionState (click s) = connected \<and>
            connects_issued (click s) = connects_issued s"
    by (simp add: click_def isConnecting_def isConnected_def handleDisconnect_def
        connects_issued_def split: option.splits)
  from a b0 b c d show ?thesis by blast
qed

theorem reentrant_connect_witness:
  "(\<exists>s'. handleConnect active_session [] Rejected = Inr s' \<and> connectionState s' = error) \<and>
   click active_session = handleDisconnect active_session \<and>
   connectionState (click active_session) = connected \<and>
   click (run initial [Mount, Click]) = run initial [Mount, Click]"
proof -
  have cs: "connectionState active_session = connected"
    by (simp add: active_session_eq)
  have cl: "client_current active_session \<noteq> None"
    by (simp add: active_session_eq)
  have r: "handleConnect (active_session\<lparr>connectionState := idle\<rparr>) [] Rejected =
        Inr (active_session\<lparr>connectionState := error, calls := [Connect, Connect],
               console := console active_session @ [LogConnectionFailed]\<rparr>)"
    by (simp add: active_session_eq handleConnect_def handleConnect_begin_def
        handleConnect_resume_def log_def)
  have cg: "connectionState (run initial [Mount, Click]) = connecting"
    by (simp add: run_def initial_def mount_def click_def isConnecting_def
      isConnected_def handleConnect_begin_def)
  note conn = reentrant_connect [of active_session "[]" Rejected]
  note busy = reentrant_connect [of "run initial [Mount, Click]" "[]" Rejected]
  from conn cs cl r
  have 1: "\<exists>s'. handleConnect active_session [] Rejected = Inr s' \<and> connectionState s' = error"
    by simp
  from conn cs
  have 2: "click active_session = handleDisconnect active_session \<and>
           connectionState (click active_session) = connected"
    by blast
  from busy cg
  have 3: "click (run initial [Mount, Click]) = run initial [Mount, Click]"
    by blast
  from 1 2 3 show ?thesis by blast
qed

subsection \<open>The connection state machine\<close>







subsection \<open>The form and the session\<close>




end
